theory Spec2Isabelle
  imports Complex_Main "HOL-Library.Sublist" "HOL-Library.Monad_Syntax"
begin

section \<open>JavaScript values\<close>

text \<open>
  A JavaScript string is a sequence of UTF-16 code units; a code unit is modelled by its
  numeric value. \<open>str\<close> embeds an 8-bit HOL string literal (each character becomes the
  code unit of the same value).
\<close>

type_synonym jsstring = "nat list"

definition str :: "string \<Rightarrow> jsstring" where
  "str s = map of_char s"

text \<open>
  A JavaScript number is NaN, one of the two infinities, or a finite value. Finite values
  are modelled as reals: the comparisons of \<open>Math.max\<close> and \<open>Math.min\<close> do not round,
  and the literals \<open>0.1\<close>, \<open>0.5\<close>, \<open>0.9\<close> stand for themselves.
\<close>

datatype jsnum = NaN | PosInf | NegInf | Fin real

definition Number_isNaN :: "jsnum \<Rightarrow> bool" where
  "Number_isNaN x = (x = NaN)"

fun Math_max :: "jsnum \<Rightarrow> jsnum \<Rightarrow> jsnum" where
  "Math_max NaN y = NaN"
| "Math_max x NaN = NaN"
| "Math_max PosInf y = PosInf"
| "Math_max x PosInf = PosInf"
| "Math_max NegInf y = y"
| "Math_max x NegInf = x"
| "Math_max (Fin a) (Fin b) = Fin (max a b)"

fun Math_min :: "jsnum \<Rightarrow> jsnum \<Rightarrow> jsnum" where
  "Math_min NaN y = NaN"
| "Math_min x NaN = NaN"
| "Math_min NegInf y = NegInf"
| "Math_min x NegInf = NegInf"
| "Math_min PosInf y = y"
| "Math_min x PosInf = x"
| "Math_min (Fin a) (Fin b) = Fin (min a b)"

section \<open>The layout tree (types.ts, lib/layout.ts)\<close>

datatype SplitDirection = Horizontal | Vertical

datatype LayoutNode =
    Pane (paneId: jsstring)
  | Split (direction: SplitDirection) (ratio: jsnum) (first: LayoutNode) (second: LayoutNode)

definition singlePaneLayout :: "jsstring \<Rightarrow> LayoutNode" where
  "singlePaneLayout p = Pane p"

fun splitLayoutAtPane ::
  "LayoutNode \<Rightarrow> jsstring \<Rightarrow> SplitDirection \<Rightarrow> jsstring \<Rightarrow> LayoutNode" where
  "splitLayoutAtPane (Pane q) targetPaneId dir newPaneId =
     (if q \<noteq> targetPaneId then Pane q
      else Split dir (Fin (1/2)) (Pane q) (singlePaneLayout newPaneId))"
| "splitLayoutAtPane (Split d r a b) targetPaneId dir newPaneId =
     Split d r (splitLayoutAtPane a targetPaneId dir newPaneId)
               (splitLayoutAtPane b targetPaneId dir newPaneId)"

record removal =
  node :: "LayoutNode option"
  removed :: bool

fun removePaneRec :: "LayoutNode \<Rightarrow> jsstring \<Rightarrow> removal" where
  "removePaneRec (Pane q) p =
     (if q = p then \<lparr>node = None, removed = True\<rparr>
      else \<lparr>node = Some (Pane q), removed = False\<rparr>)"
| "removePaneRec (Split d r a b) p =
     (let left = removePaneRec a p; right = removePaneRec b p in
      if \<not> removed left \<and> \<not> removed right then
        \<lparr>node = Some (Split d r a b), removed = False\<rparr>
      else
        (case (node left, node right) of
           (None, Some rnode) \<Rightarrow> \<lparr>node = Some rnode, removed = True\<rparr>
         | (Some lnode, None) \<Rightarrow> \<lparr>node = Some lnode, removed = True\<rparr>
         | (None, None) \<Rightarrow> \<lparr>node = None, removed = True\<rparr>
         | (Some lnode, Some rnode) \<Rightarrow> \<lparr>node = Some (Split d r lnode rnode), removed = True\<rparr>))"

definition removePaneFromLayout :: "LayoutNode \<Rightarrow> jsstring \<Rightarrow> LayoutNode option" where
  "removePaneFromLayout layout p = node (removePaneRec layout p)"

fun collectPaneIds :: "LayoutNode \<Rightarrow> jsstring list" where
  "collectPaneIds (Pane q) = [q]"
| "collectPaneIds (Split d r a b) = collectPaneIds a @ collectPaneIds b"

section \<open>Ratio handling (App.tsx)\<close>

definition clampRatio :: "jsnum \<Rightarrow> jsnum" where
  "clampRatio next =
     (if Number_isNaN next then Fin (1/2)
      else Math_max (Fin (1/10)) (Math_min (Fin (9/10)) next))"

text \<open>
  The path is a string over \<open>L\<close> (code unit 76) and \<open>R\<close> (82); any other head leaves
  the layout as it is.
\<close>

fun updateSplitRatioAtPath :: "LayoutNode \<Rightarrow> jsstring \<Rightarrow> jsnum \<Rightarrow> LayoutNode" where
  "updateSplitRatioAtPath (Pane q) path r = Pane q"
| "updateSplitRatioAtPath (Split d r0 a b) [] r = Split d (clampRatio r) a b"
| "updateSplitRatioAtPath (Split d r0 a b) (h # nextPath) r =
     (if h = 76 then Split d r0 (updateSplitRatioAtPath a nextPath r) b
      else if h = 82 then Split d r0 a (updateSplitRatioAtPath b nextPath r)
      else Split d r0 a b)"

fun preserveSplitRatios :: "LayoutNode \<Rightarrow> LayoutNode \<Rightarrow> LayoutNode" where
  "preserveSplitRatios (Split pd pr pa pb) (Split nd nr na nb) =
     (if pd \<noteq> nd then Split nd nr na nb
      else Split nd (clampRatio pr) (preserveSplitRatios pa na) (preserveSplitRatios pb nb))"
| "preserveSplitRatios previous next = next"

section \<open>The tmux layout parser (lib/tmux.ts)\<close>

datatype TmuxLayoutNode =
    TPane jsstring
  | TSplit SplitDirection jsnum TmuxLayoutNode TmuxLayoutNode

record InternalLayoutNode =
  width :: nat
  height :: nat
  node :: TmuxLayoutNode

text \<open>\<open>indexOf\<close> of a one-character search string; \<open>None\<close> stands for \<open>-1\<close>.\<close>

fun indexOf :: "jsstring \<Rightarrow> nat \<Rightarrow> nat option" where
  "indexOf [] c = None"
| "indexOf (x # xs) c = (if x = c then Some 0 else map_option Suc (indexOf xs c))"

text \<open>Code units: \<open>,\<close> is 44, \<open>x\<close> is 120.\<close>

definition stripChecksum :: "jsstring \<Rightarrow> jsstring" where
  "stripChecksum layout =
     (case (indexOf layout 44, indexOf layout 120) of
        (Some firstComma, Some firstX) \<Rightarrow>
          if firstComma < firstX then drop (firstComma + 1) layout else layout
      | _ \<Rightarrow> layout)"

text \<open>
  The three \<open>throw\<close> sites of the parser. The message and position are not modelled: the
  only caller discards the exception. \<open>OutOfFuel\<close> belongs to the model alone (see
  \<open>parseCell\<close>).
\<close>

datatype parse_error = Expected nat | ExpectedNumber | EmptyChildren | OutOfFuel

definition andThen :: "'e + 'a \<Rightarrow> ('a \<Rightarrow> 'e + 'b) \<Rightarrow> 'e + 'b" where
  "andThen r f = (case r of Inl e \<Rightarrow> Inl e | Inr v \<Rightarrow> f v)"

text \<open>
  The parser's fields \<open>input\<close> and \<open>idx\<close> are represented by the input that remains,
  \<open>input.slice(idx)\<close>; every method returns the remainder after it.
\<close>

definition peek :: "jsstring \<Rightarrow> jsstring" where
  "peek s = take 1 s"

definition consume :: "nat \<Rightarrow> jsstring \<Rightarrow> parse_error + jsstring" where
  "consume c s = (if peek s \<noteq> [c] then Inl (Expected c) else Inr (drop 1 s))"

definition isDigit :: "nat \<Rightarrow> bool" where
  "isDigit c = (48 \<le> c \<and> c \<le> 57)"

text \<open>
  \<open>Number.parseInt(out, 10)\<close> on a non-empty string of decimal digits. Numbers read from
  the layout are modelled as naturals (exact in JavaScript below \<open>2^53\<close>).
\<close>

definition parseInt10 :: "jsstring \<Rightarrow> nat" where
  "parseInt10 ds = foldl (\<lambda>acc d. 10 * acc + (d - 48)) 0 ds"

definition readNumber :: "jsstring \<Rightarrow> parse_error + (nat \<times> jsstring)" where
  "readNumber s =
     (let out = takeWhile isDigit s in
      if length out = 0 then Inl ExpectedNumber
      else Inr (parseInt10 out, dropWhile isDigit s))"

text \<open>The decimal digits of a number, as the template literal prints it.\<close>

fun numberToString :: "nat \<Rightarrow> jsstring" where
  "numberToString n =
     (if n < 10 then [48 + n] else numberToString (n div 10) @ [48 + n mod 10])"

definition span :: "SplitDirection \<Rightarrow> InternalLayoutNode \<Rightarrow> nat" where
  "span dir c = (if dir = Horizontal then width c else height c)"

text \<open>One iteration of the loop of \<open>foldChildren\<close>: \<open>current\<close> absorbs \<open>next\<close>.\<close>

definition foldStep ::
  "SplitDirection \<Rightarrow> InternalLayoutNode \<Rightarrow> InternalLayoutNode \<Rightarrow> InternalLayoutNode" where
  "foldStep dir current next =
     (let currentSpan = span dir current;
          nextSpan = span dir next;
          total = max 1 (currentSpan + nextSpan)
      in \<lparr>width = (if dir = Horizontal then width current + width next else width current),
          height = (if dir = Vertical then height current + height next else height current),
          node = TSplit dir (Fin (real currentSpan / real total)) (node current) (node next)\<rparr>)"

definition foldChildren ::
  "InternalLayoutNode list \<Rightarrow> SplitDirection \<Rightarrow> parse_error + TmuxLayoutNode" where
  "foldChildren children dir =
     (case children of
        [] \<Rightarrow> Inl EmptyChildren
      | c # cs \<Rightarrow> Inr (node (foldl (foldStep dir) c cs)))"

text \<open>
  \<open>parseCell\<close> and the \<open>while\<close> loop that collects the children of a container (the
  two loops differ only in the closing bracket). The first argument bounds the number of
  nested calls and loop iterations; \<open>parseTmuxLayout\<close> supplies more than any input
  needs. Code units: \<open>[\<close> 91, \<open>]\<close> 93, \<open>{\<close> 123, \<open>}\<close> 125, \<open>%\<close> 37.
\<close>

fun parseCell :: "nat \<Rightarrow> jsstring \<Rightarrow> parse_error + (InternalLayoutNode \<times> jsstring)"
  and parseChildren ::
    "nat \<Rightarrow> nat \<Rightarrow> jsstring \<Rightarrow> parse_error + (InternalLayoutNode list \<times> jsstring)"
where
  "parseCell 0 s = Inl OutOfFuel"
| "parseCell (Suc n) s =
     andThen (readNumber s) (\<lambda>(w, s1).
     andThen (consume 120 s1) (\<lambda>s2.
     andThen (readNumber s2) (\<lambda>(h, s3).
     andThen (consume 44 s3) (\<lambda>s4.
     andThen (readNumber s4) (\<lambda>(x, s5).
     andThen (consume 44 s5) (\<lambda>s6.
     andThen (readNumber s6) (\<lambda>(y, s7).
       if peek s7 = [91] then
         andThen (consume 91 s7) (\<lambda>s8.
         andThen (parseChildren n 93 s8) (\<lambda>(children, s9).
         andThen (consume 93 s9) (\<lambda>s10.
         andThen (foldChildren children Vertical) (\<lambda>nd.
           Inr (\<lparr>width = w, height = h, node = nd\<rparr>, s10)))))
       else if peek s7 = [123] then
         andThen (consume 123 s7) (\<lambda>s8.
         andThen (parseChildren n 125 s8) (\<lambda>(children, s9).
         andThen (consume 125 s9) (\<lambda>s10.
         andThen (foldChildren children Horizontal) (\<lambda>nd.
           Inr (\<lparr>width = w, height = h, node = nd\<rparr>, s10)))))
       else
         andThen (consume 44 s7) (\<lambda>s8.
         andThen (readNumber s8) (\<lambda>(paneNumericId, s9).
           Inr (\<lparr>width = w, height = h,
                 node = TPane (37 # numberToString paneNumericId)\<rparr>, s9))))))))))"
| "parseChildren 0 close s = Inl OutOfFuel"
| "parseChildren (Suc n) close s =
     (if peek s \<noteq> [close] then
        andThen (parseCell n s) (\<lambda>(c, s1).
        andThen (if peek s1 = [44] then consume 44 s1 else Inr s1) (\<lambda>s2.
        andThen (parseChildren n close s2) (\<lambda>(cs, s3).
          Inr (c # cs, s3))))
      else Inr ([], s))"

fun mapNode :: "TmuxLayoutNode \<Rightarrow> (jsstring \<Rightarrow> jsstring) \<Rightarrow> LayoutNode" where
  "mapNode (TPane t) mapPane = Pane (mapPane t)"
| "mapNode (TSplit d r a b) mapPane =
     Split d (Math_min (Fin (9/10)) (Math_max (Fin (1/10)) r))
       (mapNode a mapPane) (mapNode b mapPane)"

definition parseTmuxLayout ::
  "jsstring \<Rightarrow> (jsstring \<Rightarrow> jsstring) \<Rightarrow> parse_error + LayoutNode" where
  "parseTmuxLayout layout mapPane =
     (let inp = stripChecksum layout in
      andThen (parseCell (2 * length inp + 2) inp) (\<lambda>(root, rest).
        Inr (mapNode (node root) mapPane)))"

section \<open>The control-line parser (lib/tmux.ts)\<close>

subsection \<open>String primitives\<close>

definition startsWith :: "jsstring \<Rightarrow> jsstring \<Rightarrow> bool" where
  "startsWith s p = (take (length p) s = p)"

text \<open>
  The character class \<open>\s\<close> of a regular expression, which is also what \<open>trim\<close>
  removes: the white space and line terminator code points.
\<close>

definition isSpace :: "nat \<Rightarrow> bool" where
  "isSpace c = (c \<in> {9, 10, 11, 12, 13, 32, 160, 5760, 8232, 8233, 8239, 8287, 12288, 65279}
                \<or> (8192 \<le> c \<and> c \<le> 8202))"

text \<open>The code units that \<open>.\<close> does not match.\<close>

definition isLineTerminator :: "nat \<Rightarrow> bool" where
  "isLineTerminator c = (c \<in> {10, 13, 8232, 8233})"

definition trim :: "jsstring \<Rightarrow> jsstring" where
  "trim s = rev (dropWhile isSpace (rev (dropWhile isSpace s)))"

text \<open>\<open>parts.join(sep)\<close>.\<close>

fun join :: "jsstring list \<Rightarrow> jsstring \<Rightarrow> jsstring" where
  "join [] sep = []"
| "join [p] sep = p"
| "join (p # q # ps) sep = p @ sep @ join (q # ps) sep"

text \<open>
  \<open>s.split(sep)\<close> for a non-empty separator: the pieces between the leftmost,
  non-overlapping occurrences of \<open>sep\<close>.
\<close>

function splitOn :: "jsstring \<Rightarrow> jsstring \<Rightarrow> jsstring list" where
  "splitOn sep [] = [[]]"
| "splitOn sep (c # cs) =
     (if sep \<noteq> [] \<and> prefix sep (c # cs) then [] # splitOn sep (drop (length sep) (c # cs))
      else (case splitOn sep cs of p # ps \<Rightarrow> (c # p) # ps | [] \<Rightarrow> [[c]]))"
  by pat_completeness auto
termination
  by (relation "measure (\<lambda>(sep, s). length s)") (auto simp: neq_Nil_conv)

subsection \<open>Escape decoding\<close>

text \<open>\<open>/[0-7]/.test(t)\<close>: some code unit of \<open>t\<close> is an octal digit.\<close>

definition testOctal :: "jsstring \<Rightarrow> bool" where
  "testOctal t = (\<exists>c \<in> set t. 48 \<le> c \<and> c \<le> 55)"

definition parseInt8 :: "jsstring \<Rightarrow> nat" where
  "parseInt8 ds = foldl (\<lambda>acc d. 8 * acc + (d - 48)) 0 ds"

definition fromCharCode :: "nat \<Rightarrow> nat" where
  "fromCharCode n = n mod 65536"

text \<open>
  The loop over \<open>i\<close> is a recursion over \<open>payload.slice(i)\<close>; \<open>take 1 (drop k rest)\<close>
  is \<open>payload[i + 1 + k] || ""\<close>. Code units: backslash 92, \<open>n\<close> 110, \<open>r\<close> 114,
  \<open>t\<close> 116.
\<close>

fun decodeTmuxEscapedText :: "jsstring \<Rightarrow> jsstring" where
  "decodeTmuxEscapedText [] = []"
| "decodeTmuxEscapedText (c # rest) =
     (if c \<noteq> 92 then c # decodeTmuxEscapedText rest
      else
        (let next = take 1 rest in
         if next = [92] then 92 # decodeTmuxEscapedText (drop 1 rest)
         else if testOctal next \<and> testOctal (take 1 (drop 1 rest))
                 \<and> testOctal (take 1 (drop 2 rest))
           then fromCharCode (parseInt8 (take 3 rest)) # decodeTmuxEscapedText (drop 3 rest)
         else if next = [110] then 10 # decodeTmuxEscapedText (drop 1 rest)
         else if next = [114] then 13 # decodeTmuxEscapedText (drop 1 rest)
         else if next = [116] then 9 # decodeTmuxEscapedText (drop 1 rest)
         else next @ decodeTmuxEscapedText (drop 1 rest)))"

subsection \<open>Regular expressions\<close>

text \<open>
  Each matcher consumes what one piece of a pattern consumes and returns the remainder.
  Every pattern below is anchored at both ends, and in each the greedy choice is the only
  one that can succeed, so a match is a sequence of these steps.
\<close>

definition literal :: "jsstring \<Rightarrow> jsstring \<Rightarrow> jsstring option" where
  "literal p s = (if startsWith s p then Some (drop (length p) s) else None)"

text \<open>\<open>\s+\<close> before something that is not white space.\<close>

definition spaces1 :: "jsstring \<Rightarrow> jsstring option" where
  "spaces1 s = (if takeWhile isSpace s = [] then None else Some (dropWhile isSpace s))"

text \<open>\<open>\d+\<close> before something that is not a digit: the digits and the remainder.\<close>

definition digits1 :: "jsstring \<Rightarrow> (jsstring \<times> jsstring) option" where
  "digits1 s = (if takeWhile isDigit s = [] then None
                else Some (takeWhile isDigit s, dropWhile isDigit s))"

text \<open>\<open>\s?\<close> before \<open>(.*)$\<close>.\<close>

definition optSpace :: "jsstring \<Rightarrow> jsstring" where
  "optSpace s = (case s of [] \<Rightarrow> [] | c # cs \<Rightarrow> if isSpace c then cs else c # cs)"

text \<open>\<open>(.*)$\<close>: the remainder, if it holds no line terminator.\<close>

definition dotStarEnd :: "jsstring \<Rightarrow> jsstring option" where
  "dotStarEnd s = (if \<exists>c \<in> set s. isLineTerminator c then None else Some s)"

text \<open>\<open>(?:\s+.*)?$\<close>.\<close>

definition optTailEnd :: "jsstring \<Rightarrow> unit option" where
  "optTailEnd s =
     (if s = [] then Some ()
      else do { r \<leftarrow> spaces1 s; _ \<leftarrow> dotStarEnd r; Some () })"

text \<open>
  \<open>\s+(.+)$\<close>. When only white space remains, \<open>\s+\<close> gives its last code unit back
  to \<open>(.+)\<close>.
\<close>

definition spacesDotPlusEnd :: "jsstring \<Rightarrow> jsstring option" where
  "spacesDotPlusEnd s =
     do { r \<leftarrow> spaces1 s;
          if r \<noteq> [] then dotStarEnd r
          else if length s \<ge> 2 \<and> \<not> isLineTerminator (last s) then Some [last s]
          else None }"

datatype ParsedTmuxEvent =
    Output jsstring jsstring
  | WindowAdd jsstring
  | WindowClose jsstring
  | WindowRenamed jsstring jsstring
  | LayoutChange jsstring jsstring
  | WindowPaneChanged jsstring jsstring
  | SessionChanged jsstring
  | Begin
  | End
  | Error jsstring
  | Other jsstring

text \<open>\<open>/^%output\s+(%\d+)\s?(.*)$/u\<close>: the pane id and the raw data.\<close>

definition outputMatch :: "jsstring \<Rightarrow> (jsstring \<times> jsstring) option" where
  "outputMatch line =
     do { s1 \<leftarrow> literal (str ''%output'') line;
          s2 \<leftarrow> spaces1 s1;
          s3 \<leftarrow> literal (str ''%'') s2;
          (ds, s4) \<leftarrow> digits1 s3;
          dat \<leftarrow> dotStarEnd (optSpace s4);
          Some (str ''%'' @ ds, dat) }"

text \<open>\<open>/^%extended-output\s+(%\d+)\s+\d+\s?(.*)$/u\<close>.\<close>

definition extendedOutputMatch :: "jsstring \<Rightarrow> (jsstring \<times> jsstring) option" where
  "extendedOutputMatch line =
     do { s1 \<leftarrow> literal (str ''%extended-output'') line;
          s2 \<leftarrow> spaces1 s1;
          s3 \<leftarrow> literal (str ''%'') s2;
          (ds, s4) \<leftarrow> digits1 s3;
          s5 \<leftarrow> spaces1 s4;
          (age, s6) \<leftarrow> digits1 s5;
          dat \<leftarrow> dotStarEnd (optSpace s6);
          Some (str ''%'' @ ds, dat) }"

text \<open>
  \<open>/^%window-add\s+(@\d+)(?:\s+.*)?$/u\<close> and the same pattern for \<open>%window-close\<close>.
\<close>

definition windowMatch :: "jsstring \<Rightarrow> jsstring \<Rightarrow> jsstring option" where
  "windowMatch keyword line =
     do { s1 \<leftarrow> literal keyword line;
          s2 \<leftarrow> spaces1 s1;
          s3 \<leftarrow> literal (str ''@'') s2;
          (ds, s4) \<leftarrow> digits1 s3;
          _ \<leftarrow> optTailEnd s4;
          Some (str ''@'' @ ds) }"

text \<open>\<open>/^%window-renamed\s+(@\d+)\s+(.+)$/u\<close>.\<close>

definition windowRenamedMatch :: "jsstring \<Rightarrow> (jsstring \<times> jsstring) option" where
  "windowRenamedMatch line =
     do { s1 \<leftarrow> literal (str ''%window-renamed'') line;
          s2 \<leftarrow> spaces1 s1;
          s3 \<leftarrow> literal (str ''@'') s2;
          (ds, s4) \<leftarrow> digits1 s3;
          nm \<leftarrow> spacesDotPlusEnd s4;
          Some (str ''@'' @ ds, nm) }"

text \<open>\<open>/^%layout-change\s+(@\d+)\s+([^\s]+).*$/\<close>.\<close>

definition layoutMatch :: "jsstring \<Rightarrow> (jsstring \<times> jsstring) option" where
  "layoutMatch line =
     do { s1 \<leftarrow> literal (str ''%layout-change'') line;
          s2 \<leftarrow> spaces1 s1;
          s3 \<leftarrow> literal (str ''@'') s2;
          (ds, s4) \<leftarrow> digits1 s3;
          s5 \<leftarrow> spaces1 s4;
          if takeWhile (\<lambda>c. \<not> isSpace c) s5 = [] then None
          else do { _ \<leftarrow> dotStarEnd (dropWhile (\<lambda>c. \<not> isSpace c) s5);
                    Some (str ''@'' @ ds, takeWhile (\<lambda>c. \<not> isSpace c) s5) } }"

text \<open>\<open>/^%window-pane-changed\s+(@\d+)\s+(%\d+)(?:\s+.*)?$/u\<close>.\<close>

definition paneChangedMatch :: "jsstring \<Rightarrow> (jsstring \<times> jsstring) option" where
  "paneChangedMatch line =
     do { s1 \<leftarrow> literal (str ''%window-pane-changed'') line;
          s2 \<leftarrow> spaces1 s1;
          s3 \<leftarrow> literal (str ''@'') s2;
          (ws, s4) \<leftarrow> digits1 s3;
          s5 \<leftarrow> spaces1 s4;
          s6 \<leftarrow> literal (str ''%'') s5;
          (ps, s7) \<leftarrow> digits1 s6;
          _ \<leftarrow> optTailEnd s7;
          Some (str ''@'' @ ws, str ''%'' @ ps) }"

text \<open>\<open>/^%session-changed\s+\$?\d+\s+(.+)$/u\<close>.\<close>

definition sessionChanged :: "jsstring \<Rightarrow> jsstring option" where
  "sessionChanged line =
     do { s1 \<leftarrow> literal (str ''%session-changed'') line;
          s2 \<leftarrow> spaces1 s1;
          (ds, s3) \<leftarrow> digits1 (case literal (str ''$'') s2 of Some t \<Rightarrow> t | None \<Rightarrow> s2);
          spacesDotPlusEnd s3 }"

definition parseTmuxControlLine :: "jsstring \<Rightarrow> ParsedTmuxEvent" where
  "parseTmuxControlLine line =
     (if startsWith line (str ''%begin'') then Begin
      else if startsWith line (str ''%end'') then End
      else if startsWith line (str ''%error'') then Error (trim (drop 6 line))
      else case outputMatch line of
        Some (pane, dat) \<Rightarrow> Output pane (decodeTmuxEscapedText dat)
      | None \<Rightarrow>
      (case extendedOutputMatch line of
        Some (pane, dat) \<Rightarrow> Output pane (decodeTmuxEscapedText dat)
      | None \<Rightarrow>
      (case windowMatch (str ''%window-add'') line of
        Some w \<Rightarrow> WindowAdd w
      | None \<Rightarrow>
      (case windowMatch (str ''%window-close'') line of
        Some w \<Rightarrow> WindowClose w
      | None \<Rightarrow>
      (case windowRenamedMatch line of
        Some (w, nm) \<Rightarrow> WindowRenamed w nm
      | None \<Rightarrow>
      (case layoutMatch line of
        Some (w, l) \<Rightarrow> LayoutChange w l
      | None \<Rightarrow>
      (case paneChangedMatch line of
        Some (w, pn) \<Rightarrow> WindowPaneChanged w pn
      | None \<Rightarrow>
      (case sessionChanged line of
        Some nm \<Rightarrow> SessionChanged nm
      | None \<Rightarrow> Other line))))))))"

subsection \<open>Bootstrap window lines\<close>

record BootstrapWindow =
  windowId :: jsstring
  name :: jsstring
  layout :: jsstring

definition parseBootstrapWindowLine :: "jsstring \<Rightarrow> BootstrapWindow option" where
  "parseBootstrapWindowLine line =
     (let marker = str ''__WINDOW__::'' in
      if \<not> startsWith line marker then None
      else
        (let dat = drop (length marker) line;
             parts = splitOn (str ''::'') dat
         in if length parts < 3 then None
            else Some \<lparr>windowId = parts ! 0, name = parts ! 1,
                       layout = join (drop 2 parts) (str ''::'')\<rparr>))"

section \<open>The tmux controller (App.tsx)\<close>

subsection \<open>State\<close>

text \<open>
  \<open>resolve\<close> identifies the promise callback of a capture request, and with it the
  request object itself.
\<close>

record PendingTmuxCapture =
  tmuxPaneId :: jsstring
  lines :: "jsstring list"
  collecting :: bool
  timeoutId :: "nat option"
  resolve :: nat

record TmuxPaneBootstrapState =
  chunks :: "jsstring list"
  totalBytes :: int
  flushTimer :: "nat option"

text \<open>The callbacks handed to \<open>window.setTimeout\<close>, with the values they close over.\<close>

datatype timer_task =
    CaptureTimeout jsstring nat
  | BootstrapFlush jsstring
  | HydrateRetry jsstring jsstring jsstring nat

text \<open>
  The mutable references of the component that the capture queue and the pane bootstrap
  use, the pending timers of the window, and three logs of what leaves the controller:
  \<open>resolved\<close> (calls of a request's \<open>resolve\<close>, with the value), \<open>ptyWrites\<close> (calls of
  \<open>writePty\<close>) and \<open>paneWrites\<close> (calls of \<open>writeToPane\<close>, which hands the data to the
  pane's writer).
\<close>

record AppState =
  tmuxCaptureQueues :: "jsstring \<rightharpoonup> PendingTmuxCapture list"
  tmuxCaptureActive :: "jsstring \<rightharpoonup> PendingTmuxCapture"
  tmuxPaneBootstrap :: "jsstring \<rightharpoonup> TmuxPaneBootstrapState"
  tmuxHydrateStarted :: "jsstring set"
  tmuxPrefetchedHistory :: "jsstring \<rightharpoonup> (jsstring \<rightharpoonup> jsstring)"
  socketPath :: "jsstring \<rightharpoonup> jsstring"
  timeouts :: "nat \<rightharpoonup> timer_task"
  nextTimeoutId :: nat
  resolved :: "(nat \<times> jsstring) list"
  ptyWrites :: "(jsstring \<times> jsstring) list"
  paneWrites :: "(jsstring \<times> jsstring) list"

definition MAX_TMUX_BOOTSTRAP_BUFFER_BYTES :: int where
  "MAX_TMUX_BOOTSTRAP_BUFFER_BYTES = 512 * 1024"

text \<open>
  \<open>window.setTimeout\<close> returns a fresh identifier; the delay is not modelled, a pending
  callback may run at any later moment.
\<close>

definition setTimeout :: "timer_task \<Rightarrow> AppState \<Rightarrow> nat \<times> AppState" where
  "setTimeout task s =
     (nextTimeoutId s,
      s\<lparr>timeouts := (timeouts s)(nextTimeoutId s \<mapsto> task),
        nextTimeoutId := Suc (nextTimeoutId s)\<rparr>)"

definition clearTimeout :: "nat \<Rightarrow> AppState \<Rightarrow> AppState" where
  "clearTimeout t s = s\<lparr>timeouts := (timeouts s)(t := None)\<rparr>"

definition writeToPane :: "jsstring \<Rightarrow> jsstring \<Rightarrow> AppState \<Rightarrow> AppState" where
  "writeToPane pane dat s = s\<lparr>paneWrites := paneWrites s @ [(pane, dat)]\<rparr>"

subsection \<open>In-band capture requests\<close>

definition runNextTmuxCapture :: "jsstring \<Rightarrow> AppState \<Rightarrow> AppState" where
  "runNextTmuxCapture controlPtyId s =
     (if tmuxCaptureActive s controlPtyId \<noteq> None then s
      else case tmuxCaptureQueues s controlPtyId of
        None \<Rightarrow> s
      | Some [] \<Rightarrow> s
      | Some (next # queue) \<Rightarrow>
          (let (t, s1) = setTimeout (CaptureTimeout controlPtyId (resolve next))
                           (s\<lparr>tmuxCaptureQueues :=
                                (tmuxCaptureQueues s)(controlPtyId \<mapsto> queue)\<rparr>);
               next1 = next\<lparr>timeoutId := Some t\<rparr>
           in s1\<lparr>tmuxCaptureActive := (tmuxCaptureActive s1)(controlPtyId \<mapsto> next1),
                 ptyWrites := ptyWrites s1 @
                   [(controlPtyId,
                     str ''capture-pane -p -J -S -3000 -t '' @ tmuxPaneId next @ [10])]\<rparr>))"

definition captureTmuxPaneInBand :: "jsstring \<Rightarrow> jsstring \<Rightarrow> nat \<Rightarrow> AppState \<Rightarrow> AppState" where
  "captureTmuxPaneInBand controlPtyId pane res s =
     (let queue = (case tmuxCaptureQueues s controlPtyId of None \<Rightarrow> [] | Some q \<Rightarrow> q);
          req = \<lparr>tmuxPaneId = pane, lines = [], collecting = False, timeoutId = None,
                 resolve = res\<rparr>
      in runNextTmuxCapture controlPtyId
           (s\<lparr>tmuxCaptureQueues := (tmuxCaptureQueues s)(controlPtyId \<mapsto> queue @ [req])\<rparr>))"

text \<open>The 5 s timer of a request that has become active.\<close>

definition captureTimedOut :: "jsstring \<Rightarrow> nat \<Rightarrow> AppState \<Rightarrow> AppState" where
  "captureTimedOut controlPtyId res s =
     (case tmuxCaptureActive s controlPtyId of
        None \<Rightarrow> s
      | Some active \<Rightarrow>
          if resolve active \<noteq> res then s
          else runNextTmuxCapture controlPtyId
                 (s\<lparr>tmuxCaptureActive := (tmuxCaptureActive s)(controlPtyId := None),
                    resolved := resolved s @ [(res, [])]\<rparr>))"

text \<open>
  \<open>handleTmuxControlLine\<close> up to the end of its \<open>if (activeCapture)\<close> block. \<open>Done\<close>
  is a \<open>return\<close> inside it; \<open>Continue\<close> hands the line on to the bootstrap sniffers and
  the event parser that follow.
\<close>

datatype line_result = Done AppState | Continue AppState

definition handleTmuxControlLine :: "jsstring \<Rightarrow> jsstring \<Rightarrow> AppState \<Rightarrow> line_result" where
  "handleTmuxControlLine controlPtyId line s =
     (if length line = 0 then Done s
      else case tmuxCaptureActive s controlPtyId of
        None \<Rightarrow> Continue s
      | Some activeCapture \<Rightarrow>
          if startsWith line (str ''%begin'') then
            Done (s\<lparr>tmuxCaptureActive :=
                     (tmuxCaptureActive s)(controlPtyId \<mapsto> activeCapture\<lparr>collecting := True\<rparr>)\<rparr>)
          else if startsWith line (str ''%end'') \<or> startsWith line (str ''%error'') then
            (let s1 = (case timeoutId activeCapture of
                         Some t \<Rightarrow> clearTimeout t s
                       | None \<Rightarrow> s);
                 s2 = s1\<lparr>tmuxCaptureActive := (tmuxCaptureActive s1)(controlPtyId := None)\<rparr>;
                 s3 = s2\<lparr>resolved := resolved s2 @
                          [(resolve activeCapture, join (lines activeCapture) [10])]\<rparr>
             in Done (runNextTmuxCapture controlPtyId s3))
          else if collecting activeCapture \<and> \<not> startsWith line (str ''%'') then
            Done (s\<lparr>tmuxCaptureActive :=
                     (tmuxCaptureActive s)(controlPtyId \<mapsto>
                        activeCapture\<lparr>lines := lines activeCapture @ [line]\<rparr>)\<rparr>)
          else Continue s)"

subsection \<open>Pane bootstrap and history hydration\<close>

text \<open>
  The new-pane branch of \<open>mapPane\<close> in \<open>applyTmuxLayout\<close>: the pane, whose identifier
  is fresh, enters bootstrap state with its flush deadline armed.
\<close>

definition startBootstrap :: "jsstring \<Rightarrow> AppState \<Rightarrow> AppState" where
  "startBootstrap pane s =
     (let (t, s1) = setTimeout (BootstrapFlush pane) s
      in s1\<lparr>tmuxPaneBootstrap := (tmuxPaneBootstrap s1)(pane \<mapsto>
               \<lparr>chunks = [], totalBytes = 0, flushTimer = Some t\<rparr>)\<rparr>)"

definition cleanupPaneArtifacts :: "jsstring \<Rightarrow> AppState \<Rightarrow> AppState" where
  "cleanupPaneArtifacts pane s =
     (let s1 = (case tmuxPaneBootstrap s pane of
                  Some bootstrap \<Rightarrow>
                    (case flushTimer bootstrap of Some t \<Rightarrow> clearTimeout t s | None \<Rightarrow> s)
                | None \<Rightarrow> s)
      in s1\<lparr>tmuxHydrateStarted := tmuxHydrateStarted s1 - {pane},
            tmuxPaneBootstrap := (tmuxPaneBootstrap s1)(pane := None)\<rparr>)"

definition flushTmuxBootstrapPane :: "jsstring \<Rightarrow> jsstring option \<Rightarrow> AppState \<Rightarrow> AppState" where
  "flushTmuxBootstrapPane pane capturedHistory s =
     (case tmuxPaneBootstrap s pane of
        None \<Rightarrow>
          (case capturedHistory of
             Some h \<Rightarrow> if length h > 0 then writeToPane pane h s else s
           | None \<Rightarrow> s)
      | Some bootstrap \<Rightarrow>
          (let s1 = s\<lparr>tmuxPaneBootstrap := (tmuxPaneBootstrap s)(pane := None),
                      tmuxHydrateStarted := tmuxHydrateStarted s - {pane}\<rparr>;
               s2 = (case flushTimer bootstrap of Some t \<Rightarrow> clearTimeout t s1 | None \<Rightarrow> s1)
           in case capturedHistory of
                Some h \<Rightarrow>
                  if length h > 0 then writeToPane pane h s2
                  else foldl (\<lambda>st chunk. writeToPane pane chunk st) s2 (chunks bootstrap)
              | None \<Rightarrow> foldl (\<lambda>st chunk. writeToPane pane chunk st) s2 (chunks bootstrap)))"

text \<open>
  The eviction loop of the \<open>output\<close> case: the oldest chunks go while the total exceeds
  the cap and more than one chunk is left.
\<close>

fun evict :: "jsstring list \<Rightarrow> int \<Rightarrow> jsstring list \<times> int" where
  "evict (oldest # c # cs) bytes =
     (if bytes > MAX_TMUX_BOOTSTRAP_BUFFER_BYTES then
        (if oldest = [] then (c # cs, bytes)
         else evict (c # cs) (bytes - int (length oldest)))
      else (oldest # c # cs, bytes))"
| "evict cs bytes = (cs, bytes)"

text \<open>
  The \<open>output\<close> case of \<open>handleTmuxControlLine\<close> from \<open>sanitized\<close> on, for the native
  pane the tmux pane is bound to.
\<close>

definition handlePaneOutput :: "jsstring \<Rightarrow> jsstring \<Rightarrow> AppState \<Rightarrow> AppState" where
  "handlePaneOutput pane sanitized s =
     (if length sanitized = 0 then s
      else case tmuxPaneBootstrap s pane of
        Some bootstrap \<Rightarrow>
          (let (cs, bytes) = evict (chunks bootstrap @ [sanitized])
                               (totalBytes bootstrap + int (length sanitized));
               s1 = s\<lparr>tmuxPaneBootstrap := (tmuxPaneBootstrap s)(pane \<mapsto>
                         bootstrap\<lparr>chunks := cs, totalBytes := bytes\<rparr>)\<rparr>
           in if bytes \<ge> MAX_TMUX_BOOTSTRAP_BUFFER_BYTES
              then flushTmuxBootstrapPane pane None s1 else s1)
      | None \<Rightarrow> writeToPane pane sanitized s)"

text \<open>\<open>text.replace(/pat/g, rep)\<close> for a pattern that is a fixed string.\<close>

definition replaceAll :: "jsstring \<Rightarrow> jsstring \<Rightarrow> jsstring \<Rightarrow> jsstring" where
  "replaceAll pat rep s = join (splitOn pat s) rep"

text \<open>The two sequences are \<open>ESC [ ? 3 J\<close> and \<open>ESC [ 3 J\<close>.\<close>

definition sanitizeTmuxOutput :: "jsstring \<Rightarrow> jsstring" where
  "sanitizeTmuxOutput dat =
     replaceAll [27, 91, 51, 74] [] (replaceAll [27, 91, 63, 51, 74] [] dat)"

text \<open>\<open>text.replace(/\r?\n/g, "\r\n")\<close>.\<close>

fun crlf :: "jsstring \<Rightarrow> jsstring" where
  "crlf [] = []"
| "crlf (c # cs) =
     (if c = 13 \<and> take 1 cs = [10] then [13, 10] @ crlf (drop 1 cs)
      else if c = 10 then [13, 10] @ crlf cs
      else c # crlf cs)"

definition normalizeCapturedHistory :: "jsstring \<Rightarrow> jsstring" where
  "normalizeCapturedHistory t = crlf (filter (\<lambda>c. c \<noteq> 13) (sanitizeTmuxOutput t))"

definition endsWith :: "jsstring \<Rightarrow> jsstring \<Rightarrow> bool" where
  "endsWith s p = suffix p s"

datatype capture_outcome = Captured jsstring | CaptureThrew

text \<open>
  \<open>hydrateTmuxPaneHistory\<close> up to its \<open>await\<close>. When neither the prefetch nor the wait
  for the socket path applies, the call to \<open>captureTmuxPane\<close> is pending and the state is
  as before.
\<close>

definition hydrateTmuxPaneHistory ::
  "jsstring \<Rightarrow> jsstring \<Rightarrow> jsstring \<Rightarrow> nat \<Rightarrow> AppState \<Rightarrow> AppState" where
  "hydrateTmuxPaneHistory controlPtyId tpane pane attempt s =
     (let prefetched = (case tmuxPrefetchedHistory s controlPtyId of
                          None \<Rightarrow> None | Some m \<Rightarrow> m tpane);
          usable = (case prefetched of None \<Rightarrow> False | Some h \<Rightarrow> length h > 0)
      in if usable then
           flushTmuxBootstrapPane pane prefetched
             (s\<lparr>tmuxPrefetchedHistory :=
                  (case tmuxPrefetchedHistory s controlPtyId of
                     None \<Rightarrow> tmuxPrefetchedHistory s
                   | Some m \<Rightarrow> (tmuxPrefetchedHistory s)(controlPtyId \<mapsto> m(tpane := None)))\<rparr>)
         else if (case socketPath s controlPtyId of None \<Rightarrow> True | Some p \<Rightarrow> p = [])
                 \<and> attempt \<le> 10
           then snd (setTimeout (HydrateRetry controlPtyId tpane pane (attempt + 1)) s)
         else s)"

text \<open>The rest of \<open>hydrateTmuxPaneHistory\<close>, run when the awaited capture settles.\<close>

definition hydrateTmuxPaneHistory_captured ::
  "jsstring \<Rightarrow> jsstring \<Rightarrow> jsstring \<Rightarrow> nat \<Rightarrow> capture_outcome \<Rightarrow> AppState \<Rightarrow> AppState" where
  "hydrateTmuxPaneHistory_captured controlPtyId tpane pane attempt outcome s =
     (case outcome of
        Captured captured \<Rightarrow>
          if length captured = 0 \<and> attempt < 4
            then snd (setTimeout (HydrateRetry controlPtyId tpane pane (attempt + 1)) s)
          else if length captured = 0 then flushTmuxBootstrapPane pane None s
          else
            (let normalized = normalizeCapturedHistory captured;
                 history = (if endsWith normalized [13, 10] then normalized
                            else normalized @ [13, 10])
             in flushTmuxBootstrapPane pane (Some history) s)
      | CaptureThrew \<Rightarrow>
          if attempt < 4
            then snd (setTimeout (HydrateRetry controlPtyId tpane pane (attempt + 1)) s)
          else flushTmuxBootstrapPane pane None s)"

text \<open>
  One pass of the deferred loop at the end of \<open>applyTmuxLayout\<close> over a bound pane.
\<close>

definition scheduleHydration :: "jsstring \<Rightarrow> jsstring \<Rightarrow> jsstring \<Rightarrow> AppState \<Rightarrow> AppState" where
  "scheduleHydration controlPtyId tpane pane s =
     (if tmuxPaneBootstrap s pane = None then s
      else if pane \<in> tmuxHydrateStarted s then s
      else hydrateTmuxPaneHistory controlPtyId tpane pane 1
             (s\<lparr>tmuxHydrateStarted := insert pane (tmuxHydrateStarted s)\<rparr>))"

text \<open>A pending timer runs its callback, once.\<close>

definition fireTimeout :: "nat \<Rightarrow> AppState \<Rightarrow> AppState" where
  "fireTimeout t s =
     (case timeouts s t of
        None \<Rightarrow> s
      | Some task \<Rightarrow>
          (let s1 = s\<lparr>timeouts := (timeouts s)(t := None)\<rparr>
           in case task of
                CaptureTimeout controlPtyId res \<Rightarrow> captureTimedOut controlPtyId res s1
              | BootstrapFlush pane \<Rightarrow> flushTmuxBootstrapPane pane None s1
              | HydrateRetry controlPtyId tpane pane attempt \<Rightarrow>
                  hydrateTmuxPaneHistory controlPtyId tpane pane attempt s1))"

text \<open>
  What can happen to the controller while panes are in bootstrap state, in any order:
  pane output arrives, a timer fires, the deferred hydration loop reaches a pane, an
  awaited capture settles, a prefetched history or the socket path is stored, a pane is
  cleaned up.
\<close>

datatype event =
    PaneOutput jsstring jsstring
  | TimeoutFires nat
  | HydrationScheduled jsstring jsstring jsstring
  | CaptureSettles jsstring jsstring jsstring nat capture_outcome
  | PrefetchStored jsstring jsstring jsstring
  | SocketDiscovered jsstring jsstring
  | PaneCleanedUp jsstring

fun step :: "event \<Rightarrow> AppState \<Rightarrow> AppState" where
  "step (PaneOutput pane sanitized) s = handlePaneOutput pane sanitized s"
| "step (TimeoutFires t) s = fireTimeout t s"
| "step (HydrationScheduled c tpane pane) s = scheduleHydration c tpane pane s"
| "step (CaptureSettles c tpane pane attempt outcome) s =
     hydrateTmuxPaneHistory_captured c tpane pane attempt outcome s"
| "step (PrefetchStored c tpane history) s =
     s\<lparr>tmuxPrefetchedHistory := (tmuxPrefetchedHistory s)(c \<mapsto>
         (case tmuxPrefetchedHistory s c of None \<Rightarrow> Map.empty | Some m \<Rightarrow> m)(tpane \<mapsto> history))\<rparr>"
| "step (SocketDiscovered c path) s = s\<lparr>socketPath := (socketPath s)(c \<mapsto> path)\<rparr>"
| "step (PaneCleanedUp pane) s = cleanupPaneArtifacts pane s"

definition run :: "event list \<Rightarrow> AppState \<Rightarrow> AppState" where
  "run es s = foldl (\<lambda>st e. step e st) s es"

text \<open>The data handed to the writer of one pane, in order.\<close>

definition delivered :: "jsstring \<Rightarrow> AppState \<Rightarrow> jsstring list" where
  "delivered pane s = map snd (filter (\<lambda>w. fst w = pane) (paneWrites s))"

text \<open>
  How often, along a run, the bootstrap entry of a pane is taken out of the map.
\<close>

fun removals :: "jsstring \<Rightarrow> event list \<Rightarrow> AppState \<Rightarrow> nat" where
  "removals pane [] s = 0"
| "removals pane (e # es) s =
     (if tmuxPaneBootstrap s pane \<noteq> None \<and> tmuxPaneBootstrap (step e s) pane = None
      then 1 else 0) + removals pane es (step e s)"

text \<open>An application in which nothing has happened yet.\<close>

definition initialState :: AppState where
  "initialState =
     \<lparr>tmuxCaptureQueues = Map.empty, tmuxCaptureActive = Map.empty,
      tmuxPaneBootstrap = Map.empty, tmuxHydrateStarted = {},
      tmuxPrefetchedHistory = Map.empty, socketPath = Map.empty,
      timeouts = Map.empty, nextTimeoutId = 0,
      resolved = [], ptyWrites = [], paneWrites = []\<rparr>"

section \<open>Auxiliary notions for the properties\<close>

text \<open>Every split ratio of a layout is a finite number in \<open>[0.1, 0.9]\<close>.\<close>

fun ratiosInRange :: "LayoutNode \<Rightarrow> bool" where
  "ratiosInRange (Pane q) = True"
| "ratiosInRange (Split d r a b) =
     ((case r of Fin x \<Rightarrow> 1/10 \<le> x \<and> x \<le> 9/10 | _ \<Rightarrow> False)
      \<and> ratiosInRange a \<and> ratiosInRange b)"

text \<open>
  The two roots have different shapes: one is a leaf and the other a split, or both are
  splits of different directions.
\<close>

fun rootShapeDiffers :: "LayoutNode \<Rightarrow> LayoutNode \<Rightarrow> bool" where
  "rootShapeDiffers (Pane p) (Pane q) = False"
| "rootShapeDiffers (Pane p) (Split d r a b) = True"
| "rootShapeDiffers (Split d r a b) (Pane q) = True"
| "rootShapeDiffers (Split pd pr pa pb) (Split nd nr na nb) = (pd \<noteq> nd)"

text \<open>
  The specification's reading of \<open>split_at\<close>: every leaf is replaced by what \<open>f\<close> makes
  of its pane, every split keeps its direction and ratio.
\<close>

fun substLeaves :: "(jsstring \<Rightarrow> LayoutNode) \<Rightarrow> LayoutNode \<Rightarrow> LayoutNode" where
  "substLeaves f (Pane q) = f q"
| "substLeaves f (Split d r a b) = Split d r (substLeaves f a) (substLeaves f b)"

definition isOctalDigit :: "nat \<Rightarrow> bool" where
  "isOctalDigit c = (48 \<le> c \<and> c \<le> 55)"

text \<open>The two code units at the head of \<open>r\<close> are octal digits.\<close>

definition octal2 :: "jsstring \<Rightarrow> bool" where
  "octal2 r = (testOctal (take 1 r) \<and> testOctal (take 1 (drop 1 r)))"

text \<open>
  A parser result stays within its fuel and, when it succeeds, leaves fewer than \<open>k\<close>
  code units.
\<close>

definition bounded :: "nat \<Rightarrow> parse_error + ('a \<times> jsstring) \<Rightarrow> bool" where
  "bounded k r = (case r of Inl e \<Rightarrow> e \<noteq> OutOfFuel | Inr (v, t) \<Rightarrow> length t < k)"

definition boundedS :: "nat \<Rightarrow> parse_error + jsstring \<Rightarrow> bool" where
  "boundedS k r = (case r of Inl e \<Rightarrow> e \<noteq> OutOfFuel | Inr t \<Rightarrow> length t < k)"

text \<open>
  The loop of the \<open>onPtyData\<close> handler over the complete lines of a chunk, as far as the
  capture requests are concerned: a line that is handed on leaves them as they are.
\<close>

fun feedLines :: "jsstring \<Rightarrow> jsstring list \<Rightarrow> AppState \<Rightarrow> AppState" where
  "feedLines controlPtyId [] s = s"
| "feedLines controlPtyId (line # ls) s =
     (case handleTmuxControlLine controlPtyId line s of
        Done s1 \<Rightarrow> feedLines controlPtyId ls s1
      | Continue s1 \<Rightarrow> feedLines controlPtyId ls s1)"

text \<open>What a captured-history argument of \<open>flushTmuxBootstrapPane\<close> makes it write.\<close>

definition historyArg :: "jsstring option \<Rightarrow> jsstring list" where
  "historyArg h = (case h of Some x \<Rightarrow> if length x > 0 then [x] else [] | None \<Rightarrow> [])"

text \<open>
  What the removal of a bootstrap entry \<open>b\<close> may deliver to the pane: nothing, the
  buffered chunks, one non-empty captured history, or (when the flush is the overflow
  flush of an arriving chunk \<open>x\<close>) the chunks that remain buffered after \<open>x\<close> was added.
\<close>

definition flushOutcome :: "TmuxPaneBootstrapState \<Rightarrow> jsstring list \<Rightarrow> bool" where
  "flushOutcome b D =
     (D = [] \<or> D = chunks b \<or> (\<exists>h. h \<noteq> [] \<and> D = [h])
      \<or> (\<exists>x. D = fst (evict (chunks b @ [x]) (totalBytes b + int (length x)))))"

text \<open>
  The effect a step may have on one pane: an absent bootstrap entry stays absent; a
  present one either stays, and then nothing is delivered to the pane, or is removed,
  and then the step delivers a \<open>flushOutcome\<close>.
\<close>

definition paneEffect :: "jsstring \<Rightarrow> AppState \<Rightarrow> AppState \<Rightarrow> bool" where
  "paneEffect p s s' =
     (case tmuxPaneBootstrap s p of
        None \<Rightarrow> tmuxPaneBootstrap s' p = None
      | Some b \<Rightarrow>
          (case tmuxPaneBootstrap s' p of
             Some b' \<Rightarrow> delivered p s' = delivered p s
           | None \<Rightarrow> \<exists>D. delivered p s' = delivered p s @ D \<and> flushOutcome b D))"

section \<open>Properties of the layout tree\<close>

lemma collectPaneIds_nonempty: "collectPaneIds L \<noteq> []"
  by (induction L) auto

lemma removed_iff_occurs: "removed (removePaneRec L p) \<longleftrightarrow> p \<in> set (collectPaneIds L)"
  by (induction L) (auto simp: Let_def split: option.splits)

lemma unremoved_node:
  "\<not> removed (removePaneRec L p) \<Longrightarrow> removal.node (removePaneRec L p) = Some L"
  by (induction L) (auto simp: Let_def split: option.splits)

lemma remove_leaf: "removePaneFromLayout (Pane q) p = (if q = p then None else Some (Pane q))"
  by (simp add: removePaneFromLayout_def)

lemma remove_split:
  "removePaneFromLayout (Split d r a b) p =
     (case (removePaneFromLayout a p, removePaneFromLayout b p) of
        (None, None) \<Rightarrow> None
      | (Some a', None) \<Rightarrow> Some a'
      | (None, Some b') \<Rightarrow> Some b'
      | (Some a', Some b') \<Rightarrow> Some (Split d r a' b'))"
  by (auto simp: removePaneFromLayout_def Let_def unremoved_node split: option.splits)

lemma remove_ids:
  "(case removePaneFromLayout L p of None \<Rightarrow> [] | Some L' \<Rightarrow> collectPaneIds L')
     = filter (\<lambda>q. q \<noteq> p) (collectPaneIds L)"
proof (induction L)
  case (Pane q)
  show ?case by (simp add: remove_leaf)
next
  case (Split d r a b)
  then show ?case by (simp add: remove_split split: option.splits)
qed

lemma remove_none_iff:
  "removePaneFromLayout L p = None \<longleftrightarrow> set (collectPaneIds L) = {p}"
proof -
  have "removePaneFromLayout L p = None \<longleftrightarrow> filter (\<lambda>q. q \<noteq> p) (collectPaneIds L) = []"
    using remove_ids[of L p] collectPaneIds_nonempty by (auto split: option.splits)
  also have "\<dots> \<longleftrightarrow> set (collectPaneIds L) \<subseteq> {p}"
    by (auto simp: filter_empty_conv)
  also have "\<dots> \<longleftrightarrow> set (collectPaneIds L) = {p}"
    using collectPaneIds_nonempty[of L] by (cases "collectPaneIds L") auto
  finally show ?thesis .
qed

lemma distinct_single_leaf:
  assumes "distinct (collectPaneIds L)"
  shows "set (collectPaneIds L) = {p} \<longleftrightarrow> L = Pane p"
proof (cases L)
  case (Pane q)
  then show ?thesis by auto
next
  case (Split d r a b)
  have "set (collectPaneIds L) \<noteq> {p}"
  proof
    assume eq: "set (collectPaneIds L) = {p}"
    obtain x where x: "x \<in> set (collectPaneIds a)"
      using collectPaneIds_nonempty[of a] by (cases "collectPaneIds a") auto
    obtain y where y: "y \<in> set (collectPaneIds b)"
      using collectPaneIds_nonempty[of b] by (cases "collectPaneIds b") auto
    from eq x y Split have "x = p" "y = p" by auto
    with x y assms Split show False by auto
  qed
  with Split show ?thesis by simp
qed

lemma remove_absent: "p \<notin> set (collectPaneIds L) \<Longrightarrow> removePaneFromLayout L p = Some L"
  by (simp add: removePaneFromLayout_def unremoved_node removed_iff_occurs)

text \<open>
  C6. \<open>removePaneFromLayout\<close> removes the leaves of the pane recursively: a leaf of the
  pane vanishes and any other leaf stays; a split whose children both vanish vanishes, a
  split with one surviving child is replaced by that child (the ratio is gone), a split
  with two surviving children keeps its direction and ratio. The panes of the result are
  the panes of the layout without the removed one. The result is \<open>None\<close> exactly when the
  whole tree collapses, that is when every leaf is the pane; in a layout without repeated
  pane identifiers (the invariant of the data model) this is exactly the single leaf of
  the pane. A layout in which the pane does not occur is returned unchanged.
\<close>

theorem removePaneFromLayout_collapse:
  "removePaneFromLayout (Pane q) p = (if q = p then None else Some (Pane q))
   \<and> removePaneFromLayout (Split d r a b) p =
       (case (removePaneFromLayout a p, removePaneFromLayout b p) of
          (None, None) \<Rightarrow> None
        | (Some a', None) \<Rightarrow> Some a'
        | (None, Some b') \<Rightarrow> Some b'
        | (Some a', Some b') \<Rightarrow> Some (Split d r a' b'))
   \<and> (case removePaneFromLayout L p of None \<Rightarrow> [] | Some L' \<Rightarrow> collectPaneIds L')
       = filter (\<lambda>q. q \<noteq> p) (collectPaneIds L)
   \<and> (removePaneFromLayout L p = None \<longleftrightarrow> set (collectPaneIds L) = {p})
   \<and> (distinct (collectPaneIds L) \<longrightarrow> (removePaneFromLayout L p = None \<longleftrightarrow> L = Pane p))
   \<and> (p \<notin> set (collectPaneIds L) \<longrightarrow> removePaneFromLayout L p = Some L)"
  using remove_leaf remove_split remove_ids remove_none_iff distinct_single_leaf remove_absent
  by presburger

text \<open>
  The collapse scenario of the specification: from
  \<open>Split(vertical, 0.3, Pane(a), Split(horizontal, 0.7, Pane(b), Pane(c)))\<close>, removing
  \<open>b\<close>, then \<open>a\<close>, then \<open>c\<close>; and a removal of a pane that does not occur.
\<close>

theorem removePaneFromLayout_collapse_witness:
  "removePaneFromLayout
     (Split Vertical (Fin (3/10)) (Pane (str ''a''))
        (Split Horizontal (Fin (7/10)) (Pane (str ''b'')) (Pane (str ''c'')))) (str ''b'')
     = Some (Split Vertical (Fin (3/10)) (Pane (str ''a'')) (Pane (str ''c'')))
   \<and> removePaneFromLayout (Split Vertical (Fin (3/10)) (Pane (str ''a'')) (Pane (str ''c'')))
       (str ''a'') = Some (Pane (str ''c''))
   \<and> distinct (collectPaneIds (Pane (str ''c'')))
   \<and> removePaneFromLayout (Pane (str ''c'')) (str ''c'') = None
   \<and> str ''z'' \<notin> set (collectPaneIds (Split Vertical (Fin (3/10)) (Pane (str ''a'')) (Pane (str ''c''))))
   \<and> removePaneFromLayout (Split Vertical (Fin (3/10)) (Pane (str ''a'')) (Pane (str ''c'')))
       (str ''z'') = Some (Split Vertical (Fin (3/10)) (Pane (str ''a'')) (Pane (str ''c'')))"
proof -
  let ?ac = "Split Vertical (Fin (3/10)) (Pane (str ''a'')) (Pane (str ''c''))"
  have d: "distinct (collectPaneIds (Pane (str ''c'')))" by simp
  have z: "str ''z'' \<notin> set (collectPaneIds ?ac)" by (simp add: str_def)
  have 1: "removePaneFromLayout
     (Split Vertical (Fin (3/10)) (Pane (str ''a''))
        (Split Horizontal (Fin (7/10)) (Pane (str ''b'')) (Pane (str ''c'')))) (str ''b'')
     = Some ?ac"
    using removePaneFromLayout_collapse[of "str ''c''" "str ''b''" Horizontal "Fin (7/10)"
        "Pane (str ''b'')" "Pane (str ''c'')" "Pane (str ''c'')"]
      removePaneFromLayout_collapse[of "str ''a''" "str ''b''" Vertical "Fin (3/10)"
        "Pane (str ''a'')" "Split Horizontal (Fin (7/10)) (Pane (str ''b'')) (Pane (str ''c''))"
        "Pane (str ''c'')"]
      removePaneFromLayout_collapse[of "str ''b''" "str ''b''" Vertical "Fin (3/10)"
        "Pane (str ''a'')" "Pane (str ''c'')" "Pane (str ''c'')"]
    by (simp add: str_def)
  have 2: "removePaneFromLayout ?ac (str ''a'') = Some (Pane (str ''c''))"
    using removePaneFromLayout_collapse[of "str ''a''" "str ''a''" Vertical "Fin (3/10)"
        "Pane (str ''a'')" "Pane (str ''c'')" "Pane (str ''c'')"]
      removePaneFromLayout_collapse[of "str ''c''" "str ''a''" Vertical "Fin (3/10)"
        "Pane (str ''a'')" "Pane (str ''c'')" "Pane (str ''c'')"]
    by (simp add: str_def)
  have 3: "removePaneFromLayout (Pane (str ''c'')) (str ''c'') = None"
    using removePaneFromLayout_collapse[of "str ''c''" "str ''c''" Vertical "Fin (3/10)"
        "Pane (str ''a'')" "Pane (str ''c'')" "Pane (str ''c'')"] d
    by simp
  have 4: "removePaneFromLayout ?ac (str ''z'') = Some ?ac"
    using removePaneFromLayout_collapse[of "str ''c''" "str ''z''" Vertical "Fin (3/10)"
        "Pane (str ''a'')" "Pane (str ''c'')" ?ac] z
    by blast
  show ?thesis using 1 2 3 4 d z by blast
qed

lemma split_absent: "t \<notin> set (collectPaneIds L) \<Longrightarrow> splitLayoutAtPane L t d n = L"
  by (induction L) auto

lemma split_subst:
  "splitLayoutAtPane L t d n =
     substLeaves (\<lambda>q. if q = t then Split d (Fin (1/2)) (Pane t) (Pane n) else Pane q) L"
  by (induction L) (auto simp: singlePaneLayout_def)

lemma split_ids:
  "collectPaneIds (splitLayoutAtPane L t d n) =
     concat (map (\<lambda>q. if q = t then [t, n] else [q]) (collectPaneIds L))"
  by (induction L) (auto simp: singlePaneLayout_def)

text \<open>
  C7. \<open>splitLayoutAtPane\<close> replaces the leaf of the target pane by
  \<open>Split(d, 0.5, Pane(target), Pane(new))\<close> and leaves every other node as it is: the
  result is the layout with that substitution made at its leaves, splits keeping their
  direction and ratio. When the target does not occur, the result is the layout itself.
\<close>

theorem splitLayoutAtPane_replaces:
  "splitLayoutAtPane L t d n =
     substLeaves (\<lambda>q. if q = t then Split d (Fin (1/2)) (Pane t) (Pane n) else Pane q) L
   \<and> splitLayoutAtPane (Pane t) t d n = Split d (Fin (1/2)) (Pane t) (Pane n)
   \<and> collectPaneIds (splitLayoutAtPane L t d n) =
       concat (map (\<lambda>q. if q = t then [t, n] else [q]) (collectPaneIds L))
   \<and> (t \<notin> set (collectPaneIds L) \<longrightarrow> splitLayoutAtPane L t d n = L)"
  using split_subst[of L t d n] split_ids[of L t d n] split_absent[of t L d n]
  by (simp add: singlePaneLayout_def)

text \<open>
  The split scenario of the specification, inside a larger layout, and a split at a pane
  that does not occur.
\<close>

theorem splitLayoutAtPane_replaces_witness:
  "splitLayoutAtPane (Split Vertical (Fin (3/10)) (Pane (str ''p0'')) (Pane (str ''p1'')))
       (str ''p1'') Horizontal (str ''p2'')
     = Split Vertical (Fin (3/10)) (Pane (str ''p0''))
         (Split Horizontal (Fin (1/2)) (Pane (str ''p1'')) (Pane (str ''p2'')))
   \<and> str ''p9'' \<notin> set (collectPaneIds (Pane (str ''p1'')))
   \<and> splitLayoutAtPane (Pane (str ''p1'')) (str ''p9'') Horizontal (str ''p2'')
       = Pane (str ''p1'')"
proof -
  have a: "str ''p9'' \<notin> set (collectPaneIds (Pane (str ''p1'')))" by (simp add: str_def)
  have 1: "splitLayoutAtPane (Split Vertical (Fin (3/10)) (Pane (str ''p0'')) (Pane (str ''p1'')))
       (str ''p1'') Horizontal (str ''p2'')
     = Split Vertical (Fin (3/10)) (Pane (str ''p0''))
         (Split Horizontal (Fin (1/2)) (Pane (str ''p1'')) (Pane (str ''p2'')))"
    using splitLayoutAtPane_replaces[of
        "Split Vertical (Fin (3/10)) (Pane (str ''p0'')) (Pane (str ''p1''))"
        "str ''p1''" Horizontal "str ''p2''"]
    by (simp add: str_def)
  have 2: "splitLayoutAtPane (Pane (str ''p1'')) (str ''p9'') Horizontal (str ''p2'')
       = Pane (str ''p1'')"
    using splitLayoutAtPane_replaces[of "Pane (str ''p1'')" "str ''p9''" Horizontal "str ''p2''"] a
    by blast
  show ?thesis using 1 2 a by blast
qed

section \<open>Properties of the ratio handling\<close>

lemma clampRatio_in_range:
  "1/10 \<le> x \<Longrightarrow> x \<le> 9/10 \<Longrightarrow> clampRatio (Fin x) = Fin x"
  by (simp add: clampRatio_def Number_isNaN_def)

lemma preserve_same: "ratiosInRange L \<Longrightarrow> preserveSplitRatios L L = L"
proof (induction L)
  case (Pane q)
  show ?case by simp
next
  case (Split d r a b)
  from Split.prems obtain x where r: "r = Fin x" and x: "1/10 \<le> x" "x \<le> 9/10"
    by (cases r) auto
  from Split show ?case by (simp add: r clampRatio_in_range[OF x])
qed

lemma preserve_differs: "rootShapeDiffers prev nxt \<Longrightarrow> preserveSplitRatios prev nxt = nxt"
  by (induction prev nxt rule: rootShapeDiffers.induct) auto

text \<open>
  C8. On a layout whose split ratios all lie in \<open>[0.1, 0.9]\<close>, \<open>preserveSplitRatios\<close>
  applied to the layout and itself returns the layout. When the roots of the previous and
  the next layout differ in shape (one a leaf and the other a split, or splits of
  different directions), the result is the next layout.
\<close>

theorem preserveSplitRatios_idempotent:
  "(ratiosInRange L \<longrightarrow> preserveSplitRatios L L = L)
   \<and> (rootShapeDiffers prev nxt \<longrightarrow> preserveSplitRatios prev nxt = nxt)"
  using preserve_same preserve_differs by blast

theorem preserveSplitRatios_idempotent_witness:
  "ratiosInRange (Split Horizontal (Fin (7/10)) (Pane (str ''p1''))
       (Split Vertical (Fin (1/10)) (Pane (str ''p2'')) (Pane (str ''p3''))))
   \<and> preserveSplitRatios
       (Split Horizontal (Fin (7/10)) (Pane (str ''p1''))
          (Split Vertical (Fin (1/10)) (Pane (str ''p2'')) (Pane (str ''p3''))))
       (Split Horizontal (Fin (7/10)) (Pane (str ''p1''))
          (Split Vertical (Fin (1/10)) (Pane (str ''p2'')) (Pane (str ''p3''))))
     = Split Horizontal (Fin (7/10)) (Pane (str ''p1''))
          (Split Vertical (Fin (1/10)) (Pane (str ''p2'')) (Pane (str ''p3'')))
   \<and> rootShapeDiffers (Split Horizontal (Fin (7/10)) (Pane (str ''p1'')) (Pane (str ''p2'')))
       (Split Vertical (Fin (1/2)) (Pane (str ''p1'')) (Pane (str ''p2'')))
   \<and> preserveSplitRatios (Split Horizontal (Fin (7/10)) (Pane (str ''p1'')) (Pane (str ''p2'')))
       (Split Vertical (Fin (1/2)) (Pane (str ''p1'')) (Pane (str ''p2'')))
     = Split Vertical (Fin (1/2)) (Pane (str ''p1'')) (Pane (str ''p2''))"
proof -
  let ?L = "Split Horizontal (Fin (7/10)) (Pane (str ''p1''))
       (Split Vertical (Fin (1/10)) (Pane (str ''p2'')) (Pane (str ''p3'')))"
  let ?P = "Split Horizontal (Fin (7/10)) (Pane (str ''p1'')) (Pane (str ''p2''))"
  let ?N = "Split Vertical (Fin (1/2)) (Pane (str ''p1'')) (Pane (str ''p2''))"
  have h1: "ratiosInRange ?L" by simp
  have h2: "rootShapeDiffers ?P ?N" by simp
  show ?thesis
    using h1 h2 preserveSplitRatios_idempotent[of ?L ?P ?N] by blast
qed

lemma clamp_bounds:
  "(1::real)/10 \<le> max (1/10) (min (9/10) x) \<and> max (1/10) (min (9/10) x) \<le> 9/10
   \<and> (1::real)/10 \<le> min (9/10) (max (1/10) x) \<and> min (9/10) (max (1/10) x) \<le> 9/10"
  by (auto simp: max_def min_def)

text \<open>
  C3 (amended). \<open>clampRatio\<close>, which \<open>updateSplitRatioAtPath\<close> and
  \<open>preserveSplitRatios\<close> apply to the ratio they store, coerces NaN to \<open>0.5\<close>, clamps
  \<open>+Infinity\<close> to \<open>0.9\<close> and \<open>-Infinity\<close> to \<open>0.1\<close>, and clamps every finite value
  into \<open>[0.1, 0.9]\<close>. The layout parser (\<open>mapNode\<close>) clamps every finite ratio, and the
  two infinities, into \<open>[0.1, 0.9]\<close> as well.
\<close>

theorem clampRatio_cases:
  "clampRatio NaN = Fin (1/2)
   \<and> clampRatio PosInf = Fin (9/10)
   \<and> clampRatio NegInf = Fin (1/10)
   \<and> clampRatio (Fin x) = Fin (max (1/10) (min (9/10) x))
   \<and> (\<exists>y. clampRatio (Fin x) = Fin y \<and> 1/10 \<le> y \<and> y \<le> 9/10)
   \<and> updateSplitRatioAtPath (Split d r0 a b) [] r = Split d (clampRatio r) a b
   \<and> preserveSplitRatios (Split d pr pa pb) (Split d nr na nb) =
       Split d (clampRatio pr) (preserveSplitRatios pa na) (preserveSplitRatios pb nb)
   \<and> mapNode (TSplit d (Fin x) ta tb) f =
       Split d (Fin (min (9/10) (max (1/10) x))) (mapNode ta f) (mapNode tb f)
   \<and> mapNode (TSplit d PosInf ta tb) f = Split d (Fin (9/10)) (mapNode ta f) (mapNode tb f)
   \<and> mapNode (TSplit d NegInf ta tb) f = Split d (Fin (1/10)) (mapNode ta f) (mapNode tb f)
   \<and> (\<exists>y. ratio (mapNode (TSplit d (Fin x) ta tb) f) = Fin y \<and> 1/10 \<le> y \<and> y \<le> 9/10)"
proof -
  have c: "clampRatio (Fin x) = Fin (max (1/10) (min (9/10) x))"
    by (simp add: clampRatio_def Number_isNaN_def)
  have m: "ratio (mapNode (TSplit d (Fin x) ta tb) f) = Fin (min (9/10) (max (1/10) x))"
    by simp
  have "\<exists>y. clampRatio (Fin x) = Fin y \<and> 1/10 \<le> y \<and> y \<le> 9/10"
    unfolding c using clamp_bounds[of x] by blast
  moreover have "\<exists>y. ratio (mapNode (TSplit d (Fin x) ta tb) f) = Fin y \<and> 1/10 \<le> y \<and> y \<le> 9/10"
    unfolding m using clamp_bounds[of x] by blast
  ultimately show ?thesis
    using c by (simp add: clampRatio_def Number_isNaN_def)
qed

theorem clampRatio_cases_witness:
  "clampRatio (Fin 2) = Fin (9/10) \<and> clampRatio (Fin (3/10)) = Fin (3/10)
   \<and> clampRatio (Fin (-1)) = Fin (1/10)
   \<and> updateSplitRatioAtPath (Split Horizontal (Fin (1/2)) (Pane (str ''a'')) (Pane (str ''b'')))
        [] NaN = Split Horizontal (Fin (1/2)) (Pane (str ''a'')) (Pane (str ''b''))"
  using clampRatio_cases[of 2] clampRatio_cases[of "3/10"] clampRatio_cases[of "-1"]
    clampRatio_cases[of 0 Horizontal "Fin (1/2)" "Pane (str ''a'')" "Pane (str ''b'')" NaN]
  by simp

text \<open>
  The original wording has \<open>+Infinity\<close> and \<open>-Infinity\<close> coerced to \<open>0.5\<close>; a ratio
  update with \<open>+Infinity\<close> stores \<open>0.9\<close>.
\<close>

theorem clampRatio_infinity_counterexample:
  "clampRatio PosInf \<noteq> Fin (1/2)
   \<and> clampRatio NegInf \<noteq> Fin (1/2)
   \<and> updateSplitRatioAtPath (Split Horizontal (Fin (1/2)) (Pane (str ''a'')) (Pane (str ''b'')))
        [] PosInf = Split Horizontal (Fin (9/10)) (Pane (str ''a'')) (Pane (str ''b''))"
  by (simp add: clampRatio_def Number_isNaN_def)


end
